theory Spec2Isabelle
  imports Main
begin

section \<open>The sensor platform of ha_integration_domain\<close>

text \<open>
  A shallow embedding of \<^verbatim>\<open>custom_components/ha_integration_domain/sensor.py\<close>:
  the static tuple \<^verbatim>\<open>ENTITY_DESCRIPTIONS\<close>, the platform set-up coroutine
  \<^verbatim>\<open>async_setup_entry\<close> and the property
  \<^verbatim>\<open>IntegrationBlueprintSensor.native_value\<close>.
\<close>

subsection \<open>Python values\<close>

text \<open>
  The coordinator caches whatever its API client decoded, so its \<^verbatim>\<open>data\<close>
  attribute is a dynamically typed value: \<^verbatim>\<open>None\<close> (the attribute's
  initial value), a boolean, an integer, a string, a list, or a dictionary with string
  keys. A dictionary is a partial map from keys to values.
\<close>

datatype pyval =
    PyNone
  | PyBool bool
  | PyInt int
  | PyStr string
  | PyList "pyval list"
  | PyDict "string \<Rightarrow> pyval option"

text \<open>
  The one exception the code under study can raise: looking up the attribute
  \<^verbatim>\<open>get\<close> on an object that has none.
\<close>

datatype error = AttributeError

text \<open>
  The method call \<^verbatim>\<open>obj.get(k)\<close> with a single argument. On a dictionary it is
  \<^verbatim>\<open>dict.get\<close>: the stored value, or \<^verbatim>\<open>None\<close> for a missing key. None of
  the other values has an attribute \<^verbatim>\<open>get\<close>, so the attribute lookup raises.
\<close>

definition py_get :: "pyval \<Rightarrow> string \<Rightarrow> error + pyval" where
  "py_get obj k =
     (case obj of
        PyDict m \<Rightarrow> Inr (case m k of None \<Rightarrow> PyNone | Some v \<Rightarrow> v)
      | _ \<Rightarrow> Inl AttributeError)"

subsection \<open>The objects the platform handles\<close>

text \<open>
  \<^verbatim>\<open>SensorEntityDescription(key=..., translation_key=..., icon=...)\<close>: the three
  keyword arguments the source passes.
\<close>

record SensorEntityDescription =
  key :: string
  translation_key :: string
  icon :: string

text \<open>
  The coordinator: the source reads its attribute \<^verbatim>\<open>data\<close> only. Every other
  attribute of the object lives in the record's extension.
\<close>

record Coordinator =
  data :: pyval

text \<open>
  \<^verbatim>\<open>entry.runtime_data.coordinator\<close>: a config entry carries runtime data, which
  carries the coordinator. The set-up function hands the coordinator on without looking
  into it, so its type is a parameter.
\<close>

record 'c IntegrationBlueprintData =
  coordinator :: 'c

record 'c IntegrationBlueprintConfigEntry =
  runtime_data :: "'c IntegrationBlueprintData"

text \<open>
  A sensor entity: \<^verbatim>\<open>native_value\<close> reads \<^verbatim>\<open>self.coordinator\<close>; the
  remaining attributes of the entity are the record's extension.
\<close>

record 'x IntegrationBlueprintSensor =
  coordinator :: "'x Coordinator_scheme"

subsection \<open>native_value\<close>

text \<open>
  \<^verbatim>\<open>return self.coordinator.data.get("body")\<close>. The property is evaluated on the
  entity and may raise; the model returns the outcome together with the entity as the
  evaluation leaves it.
\<close>

definition native_value ::
  "('x, 'y) IntegrationBlueprintSensor_scheme
     \<Rightarrow> (error + pyval) \<times> ('x, 'y) IntegrationBlueprintSensor_scheme" where
  "native_value self = (py_get (data (coordinator self)) ''body'', self)"

subsection \<open>ENTITY_DESCRIPTIONS\<close>

text \<open>The module-level tuple, in the order the source lists it.\<close>

definition ENTITY_DESCRIPTIONS :: "SensorEntityDescription list" where
  "ENTITY_DESCRIPTIONS =
     [\<lparr>key = ''ha_integration_domain'',
       translation_key = ''ha_integration_domain'',
       icon = ''mdi:format-quote-close''\<rparr>]"

subsection \<open>async_setup_entry\<close>

text \<open>
  An \<^verbatim>\<open>async def\<close> is a coroutine: driven by the event loop, it either runs to its
  \<^verbatim>\<open>return\<close>, leaving a value and the host's state, or stops at an
  \<^verbatim>\<open>await\<close>, handing the state to the loop and keeping a continuation for the
  state it is resumed in.
\<close>

datatype ('s, 'a) coroutine =
    Return 'a 's
  | Suspend 's "'s \<Rightarrow> ('s, 'a) coroutine"

text \<open>
  \<^verbatim>\<open>async_add_entities(IntegrationBlueprintSensor(coordinator=..., entity_description=d)
  for d in ENTITY_DESCRIPTIONS)\<close>, with no \<^verbatim>\<open>await\<close> and no explicit
  \<^verbatim>\<open>return\<close> (so the value is \<^verbatim>\<open>None\<close>, here the unit).

  The constructor of \<^verbatim>\<open>IntegrationBlueprintSensor\<close> is inherited from
  \<^verbatim>\<open>IntegrationBlueprintEntity\<close> in \<^verbatim>\<open>entity.py\<close>; it is the parameter
  \<open>new_sensor\<close>, taking the two keyword arguments in the order of the call. The host's
  callback \<open>async_add_entities\<close> acts on the state \<open>platform\<close> of the entity platform;
  the generator expression is the list of the entities it yields.
\<close>

definition async_setup_entry ::
  "('c \<Rightarrow> SensorEntityDescription \<Rightarrow> 'e) \<Rightarrow> 'h
     \<Rightarrow> ('c, 'r) IntegrationBlueprintConfigEntry_scheme
     \<Rightarrow> ('e list \<Rightarrow> 'p \<Rightarrow> 'p) \<Rightarrow> 'p \<Rightarrow> ('p, unit) coroutine" where
  "async_setup_entry new_sensor hass entry async_add_entities platform =
     Return ()
       (async_add_entities
          (map (\<lambda>entity_description.
                  new_sensor
                    (IntegrationBlueprintData.coordinator (runtime_data entry))
                    entity_description)
               ENTITY_DESCRIPTIONS)
          platform)"

text \<open>
  A callback to observe the registration with: the platform state is the list of the
  entities registered so far, and the callback appends what it is given.
\<close>

definition record_entities :: "'e list \<Rightarrow> 'e list \<Rightarrow> 'e list" where
  "record_entities new_entities platform = platform @ new_entities"

section \<open>Properties\<close>

text \<open>
  C1. For every coordinator whose data mapping contains the key "body" with value V,
  the sensor's native_value returns exactly V.
\<close>

theorem native_value_body_present:
  "data (coordinator self) = PyDict m \<Longrightarrow> m ''body'' = Some V
     \<Longrightarrow> fst (native_value self) = Inr V"
  by (simp add: native_value_def py_get_def)

theorem native_value_body_present_witness:
  "[''body'' \<mapsto> PyStr ''quote''] ''body'' = Some (PyStr ''quote'') \<and>
   fst (native_value
     \<lparr>coordinator = \<lparr>data = PyDict [''body'' \<mapsto> PyStr ''quote'']\<rparr>\<rparr>)
     = Inr (PyStr ''quote'')"
  using native_value_body_present
    [of "\<lparr>coordinator = \<lparr>data = PyDict [''body'' \<mapsto> PyStr ''quote'']\<rparr>\<rparr>"
        "[''body'' \<mapsto> PyStr ''quote'']" "PyStr ''quote''"]
  by simp

text \<open>
  C2. For every coordinator whose data mapping does not contain the key "body",
  native_value returns the absent value None and does not raise.
\<close>

theorem native_value_body_absent:
  "data (coordinator self) = PyDict m \<Longrightarrow> m ''body'' = None
     \<Longrightarrow> fst (native_value self) = Inr PyNone"
  by (simp add: native_value_def py_get_def)

theorem native_value_body_absent_witness:
  "[''title'' \<mapsto> PyStr ''t''] ''body'' = None \<and>
   fst (native_value
     \<lparr>coordinator = \<lparr>data = PyDict [''title'' \<mapsto> PyStr ''t'']\<rparr>\<rparr>)
     = Inr PyNone"
  using native_value_body_absent
    [of "\<lparr>coordinator = \<lparr>data = PyDict [''title'' \<mapsto> PyStr ''t'']\<rparr>\<rparr>"
        "[''title'' \<mapsto> PyStr ''t'']"]
  by simp

text \<open>
  C3. The no-raise guarantee needs the coordinator's data to be a mapping: when the data
  attribute is None or any other value that is not a dictionary, evaluating native_value
  raises instead of returning an absent value.
\<close>

theorem native_value_not_mapping_raises:
  "\<forall>m. data (coordinator self) \<noteq> PyDict m
     \<Longrightarrow> fst (native_value self) = Inl AttributeError"
  by (cases "data (coordinator self)") (auto simp add: native_value_def py_get_def)

theorem native_value_not_mapping_raises_witness:
  "fst (native_value \<lparr>coordinator = \<lparr>data = PyNone\<rparr>\<rparr>) = Inl AttributeError \<and>
   fst (native_value \<lparr>coordinator = \<lparr>data = PyList [PyStr ''body'']\<rparr>\<rparr>)
     = Inl AttributeError"
  using native_value_not_mapping_raises [of "\<lparr>coordinator = \<lparr>data = PyNone\<rparr>\<rparr>"]
    native_value_not_mapping_raises
      [of "\<lparr>coordinator = \<lparr>data = PyList [PyStr ''body'']\<rparr>\<rparr>"]
  by simp

text \<open>
  C4. Every call of async_setup_entry hands the callback exactly one sensor entity per
  record of ENTITY_DESCRIPTIONS, hence exactly one entity, each constructed from the
  coordinator at entry.runtime_data.coordinator and from that record. With the recording
  callback, the platform afterwards holds what it held before followed by that entity.
\<close>

theorem async_setup_entry_registers_one_per_description:
  "async_setup_entry new_sensor hass entry async_add_entities platform =
     Return ()
       (async_add_entities
          [new_sensor (IntegrationBlueprintData.coordinator (runtime_data entry))
             \<lparr>key = ''ha_integration_domain'',
              translation_key = ''ha_integration_domain'',
              icon = ''mdi:format-quote-close''\<rparr>]
          platform) \<and>
   async_setup_entry new_sensor hass entry record_entities registered =
     Return ()
       (registered @
        map (new_sensor (IntegrationBlueprintData.coordinator (runtime_data entry)))
          ENTITY_DESCRIPTIONS) \<and>
   length
     (map (new_sensor (IntegrationBlueprintData.coordinator (runtime_data entry)))
        ENTITY_DESCRIPTIONS) = 1"
  by (simp add: async_setup_entry_def record_entities_def ENTITY_DESCRIPTIONS_def)

text \<open>
  C5. ENTITY_DESCRIPTIONS holds exactly one entity description, with key
  "ha_integration_domain", translation key "ha_integration_domain" and icon
  "mdi:format-quote-close".
\<close>

theorem ENTITY_DESCRIPTIONS_single_record:
  "length ENTITY_DESCRIPTIONS = 1 \<and>
   key (hd ENTITY_DESCRIPTIONS) = ''ha_integration_domain'' \<and>
   translation_key (hd ENTITY_DESCRIPTIONS) = ''ha_integration_domain'' \<and>
   icon (hd ENTITY_DESCRIPTIONS) = ''mdi:format-quote-close'' \<and>
   ENTITY_DESCRIPTIONS =
     [\<lparr>key = ''ha_integration_domain'',
       translation_key = ''ha_integration_domain'',
       icon = ''mdi:format-quote-close''\<rparr>]"
  by (simp add: ENTITY_DESCRIPTIONS_def)

text \<open>
  C6. Reading native_value leaves the coordinator's data mapping unchanged: the entity
  after the evaluation is the entity before it, and so is the data its coordinator holds,
  whether the read returns or raises.
\<close>

theorem native_value_leaves_data_unchanged:
  "snd (native_value self) = self \<and>
   data (coordinator (snd (native_value self))) = data (coordinator self)"
  by (simp add: native_value_def)

text \<open>
  C7. native_value is a function of the coordinator's data alone: two sensors whose
  coordinators hold equal data give equal results, whatever else the sensors and their
  coordinators carry (their extensions may even be of different types).
\<close>

theorem native_value_depends_on_data_only:
  "data (coordinator self1) = data (coordinator self2)
     \<Longrightarrow> fst (native_value self1) = fst (native_value self2)"
  by (simp add: native_value_def)

theorem native_value_depends_on_data_only_witness:
  "data (coordinator
     \<lparr>coordinator = \<lparr>data = PyDict [''body'' \<mapsto> PyInt 7], \<dots> = True\<rparr>,
      \<dots> = ''sensor.one''\<rparr>)
   = data (coordinator
     \<lparr>coordinator = \<lparr>data = PyDict [''body'' \<mapsto> PyInt 7], \<dots> = (3::nat)\<rparr>,
      \<dots> = [False]\<rparr>) \<and>
   fst (native_value
     \<lparr>coordinator = \<lparr>data = PyDict [''body'' \<mapsto> PyInt 7], \<dots> = True\<rparr>,
      \<dots> = ''sensor.one''\<rparr>)
   = fst (native_value
     \<lparr>coordinator = \<lparr>data = PyDict [''body'' \<mapsto> PyInt 7], \<dots> = (3::nat)\<rparr>,
      \<dots> = [False]\<rparr>)"
  using native_value_depends_on_data_only
    [of "\<lparr>coordinator = \<lparr>data = PyDict [''body'' \<mapsto> PyInt 7], \<dots> = True\<rparr>,
          \<dots> = ''sensor.one''\<rparr>"
        "\<lparr>coordinator = \<lparr>data = PyDict [''body'' \<mapsto> PyInt 7], \<dots> = (3::nat)\<rparr>,
          \<dots> = [False]\<rparr>"]
  by simp

text \<open>
  C9. native_value returns the value stored under "body" as it is, without conversion:
  whatever value V the mapping holds there, of whatever type, the result is V; an integer
  comes back as that integer although the annotation promises a string.
\<close>

theorem native_value_returns_body_verbatim:
  "fst (native_value
     (self\<lparr>coordinator := (coordinator self)\<lparr>data := PyDict (m(''body'' \<mapsto> V))\<rparr>\<rparr>))
     = Inr V \<and>
   fst (native_value
     \<lparr>coordinator = \<lparr>data = PyDict [''body'' \<mapsto> PyInt 42]\<rparr>\<rparr>)
     = Inr (PyInt 42)"
  by (simp add: native_value_def py_get_def)

text \<open>
  C10. The entities async_setup_entry registers do not depend on the hass argument: for
  the same config entry, callback and platform state, any two hass contexts (of any
  types) lead to the same registration.
\<close>

theorem async_setup_entry_ignores_hass:
  "async_setup_entry new_sensor hass1 entry async_add_entities platform =
   async_setup_entry new_sensor hass2 entry async_add_entities platform"
  by (simp add: async_setup_entry_def)

end
